theory Spec2Isabelle
  imports Complex_Main
begin

section \<open>Numbers\<close>

text \<open>
  The pipeline computes with Python floats and NumPy float64 values. The embedding takes a
  finite float to be the real number it denotes (rounding and overflow are not modelled) and
  keeps NaN apart, because pandas produces it (the mean of a column without values, a cell
  left empty in a CSV file) and Python's \<^verbatim>\<open>min\<close>, \<^verbatim>\<open>max\<close> and comparisons treat it specially.
  Python's \<^verbatim>\<open>int\<close> 70 and \<^verbatim>\<open>float\<close> 70.0 are one number here.
\<close>

datatype pyfloat = Fin real | NaN

fun lift1 :: "(real \<Rightarrow> real) \<Rightarrow> pyfloat \<Rightarrow> pyfloat" where
  "lift1 f (Fin x) = Fin (f x)"
| "lift1 f NaN = NaN"

fun lift2 :: "(real \<Rightarrow> real \<Rightarrow> real) \<Rightarrow> pyfloat \<Rightarrow> pyfloat \<Rightarrow> pyfloat" where
  "lift2 f (Fin x) (Fin y) = Fin (f x y)"
| "lift2 f _ _ = NaN"

text \<open>
  \<^verbatim>\<open>min(a, b)\<close> of Python returns \<^verbatim>\<open>a\<close> unless \<^verbatim>\<open>b < a\<close>, and \<^verbatim>\<open>max(a, b)\<close> returns
  \<^verbatim>\<open>a\<close> unless \<^verbatim>\<open>b > a\<close>; a comparison with NaN is false. In both calls of the source the
  first argument is a finite constant, so the result is finite.
\<close>

fun py_min :: "real \<Rightarrow> pyfloat \<Rightarrow> real" where
  "py_min a (Fin b) = (if b < a then b else a)"
| "py_min a NaN = a"

fun py_max :: "real \<Rightarrow> pyfloat \<Rightarrow> real" where
  "py_max a (Fin b) = (if b > a then b else a)"
| "py_max a NaN = a"

text \<open>\<^verbatim>\<open>np.sum\<close> over an array: NaN as soon as one element is.\<close>

fun np_sum :: "pyfloat list \<Rightarrow> pyfloat" where
  "np_sum [] = Fin 0"
| "np_sum (x # xs) = lift2 (+) x (np_sum xs)"

text \<open>\<^verbatim>\<open>int(x)\<close> on a finite float truncates toward zero.\<close>

definition py_int :: "real \<Rightarrow> int" where
  "py_int x = (if 0 \<le> x then \<lfloor>x\<rfloor> else \<lceil>x\<rceil>)"

section \<open>The suitability score\<close>

text \<open>
  \<^verbatim>\<open>calculate_suitability_score(recent_fires, avg_frp, temperature, humidity, wind_speed, ndvi)\<close>,
  in the three steps of its body: the array \<^verbatim>\<open>normalized_factors\<close>, the weighted sum, and the
  score on the scale 0 to 100.
\<close>

definition weights :: "real list" where
  "weights = [-0.2, -0.1, -0.15, 0.25, -0.2, 0.1]"

definition normalized_factors ::
  "pyfloat \<Rightarrow> pyfloat \<Rightarrow> pyfloat \<Rightarrow> pyfloat \<Rightarrow> pyfloat \<Rightarrow> pyfloat \<Rightarrow> pyfloat list" where
  "normalized_factors recent_fires avg_frp temperature humidity wind_speed ndvi =
     [Fin (py_min 1 (lift1 (\<lambda>x. x / 20) recent_fires)),
      Fin (py_min 1 (lift1 (\<lambda>x. x / 1000) avg_frp)),
      lift1 (\<lambda>x. (x - 50) / 50) temperature,
      lift1 (\<lambda>x. x / 100) humidity,
      lift1 (\<lambda>x. x / 20) wind_speed,
      ndvi]"

definition weighted_sum ::
  "pyfloat \<Rightarrow> pyfloat \<Rightarrow> pyfloat \<Rightarrow> pyfloat \<Rightarrow> pyfloat \<Rightarrow> pyfloat \<Rightarrow> pyfloat" where
  "weighted_sum recent_fires avg_frp temperature humidity wind_speed ndvi =
     np_sum (map2 (\<lambda>x w. lift1 (\<lambda>v. v * w) x)
       (normalized_factors recent_fires avg_frp temperature humidity wind_speed ndvi) weights)"

definition calculate_suitability_score ::
  "pyfloat \<Rightarrow> pyfloat \<Rightarrow> pyfloat \<Rightarrow> pyfloat \<Rightarrow> pyfloat \<Rightarrow> pyfloat \<Rightarrow> real" where
  "calculate_suitability_score recent_fires avg_frp temperature humidity wind_speed ndvi =
     (let base_score = 50;
          score = lift1 (\<lambda>s. base_score + s * 50)
                    (weighted_sum recent_fires avg_frp temperature humidity wind_speed ndvi)
      in py_max 0 (Fin (py_min 100 score)))"

section \<open>The county registry and the assignment of a point\<close>

text \<open>
  \<^verbatim>\<open>COUNTIES\<close> is a module-level dict, iterated in insertion order. The functions that read it
  take it as their first argument here, so that the properties hold for any registry, and
  \<open>COUNTIES\<close> is the one of the source.
\<close>

record bbox =
  minlat :: real
  maxlat :: real
  minlon :: real
  maxlon :: real

record county_info =
  cid :: string
  bounds :: bbox

type_synonym counties = "(string \<times> county_info) list"

definition COUNTIES :: counties where
  "COUNTIES =
     [(''San Francisco'', \<lparr>cid = ''sf'',
         bounds = \<lparr>minlat = 37.7, maxlat = 37.8, minlon = -122.5, maxlon = -122.3\<rparr>\<rparr>),
      (''Los Angeles'', \<lparr>cid = ''la'',
         bounds = \<lparr>minlat = 33.7, maxlat = 34.8, minlon = -118.7, maxlon = -117.7\<rparr>\<rparr>)]"

text \<open>Float comparisons \<^verbatim>\<open><=\<close> and \<^verbatim>\<open>>=\<close>: false when an operand is NaN.\<close>

fun fle :: "pyfloat \<Rightarrow> pyfloat \<Rightarrow> bool" where
  "fle (Fin a) (Fin b) = (a \<le> b)"
| "fle _ _ = False"

definition fge :: "pyfloat \<Rightarrow> pyfloat \<Rightarrow> bool" where
  "fge a b = fle b a"

fun assign_to_county :: "counties \<Rightarrow> pyfloat \<Rightarrow> pyfloat \<Rightarrow> string option" where
  "assign_to_county [] lat lon = None"
| "assign_to_county ((county_name, county_info) # rest) lat lon =
     (let b = bounds county_info
      in if (fle (Fin (minlat b)) lat \<and> fle lat (Fin (maxlat b))) \<and>
            (fle (Fin (minlon b)) lon \<and> fle lon (Fin (maxlon b)))
         then Some (cid county_info)
         else assign_to_county rest lat lon)"

section \<open>Data frames\<close>

text \<open>
  A pandas frame read from a CSV file: its column names and its rows, a row giving the cell
  of each column, a finite number or NaN (a cell left empty). A column holding text, on which
  pandas raises \<^verbatim>\<open>TypeError\<close> for a comparison or a mean, is outside the model: the
  properties below are about frames whose columns, where the pipeline reads them, are numeric.
  A row is never asked for a column that the frame does not have: \<open>column\<close> raises
  \<^verbatim>\<open>KeyError\<close> first, as \<^verbatim>\<open>df['c']\<close> does.
\<close>

type_synonym row = "string \<Rightarrow> pyfloat"

record data_frame =
  columns :: "string list"
  rows :: "row list"

datatype error = KeyError string | ValueError | AttributeError

definition column :: "data_frame \<Rightarrow> string \<Rightarrow> error + pyfloat list" where
  "column df c = (if c \<in> set (columns df) then Inr (map (\<lambda>r. r c) (rows df)) else Inl (KeyError c))"

text \<open>
  \<^verbatim>\<open>Series.mean()\<close> skips NaN cells and is NaN when no value is left. The mean is the
  exact one: the sum of float64 values can round, and overflow for values near the largest
  float, which is outside the model.
\<close>

fun values_of :: "pyfloat list \<Rightarrow> real list" where
  "values_of [] = []"
| "values_of (Fin v # xs) = v # values_of xs"
| "values_of (NaN # xs) = values_of xs"

definition series_mean :: "pyfloat list \<Rightarrow> pyfloat" where
  "series_mean s =
     (let vs = values_of s in if vs = [] then NaN else Fin (sum_list vs / real (length vs)))"

text \<open>\<^verbatim>\<open>df.empty\<close>: no rows or no columns.\<close>

definition empty_df :: "data_frame \<Rightarrow> bool" where
  "empty_df df = (rows df = [] \<or> columns df = [])"

text \<open>
  \<^verbatim>\<open>pd.concat(dfs, ignore_index=True)\<close>: the columns of all frames in the order of their first
  appearance, the rows one frame after the other, NaN where a frame lacks a column.
\<close>

definition first_occurrences :: "'a list \<Rightarrow> 'a list" where
  "first_occurrences xs = rev (remdups (rev xs))"

definition pd_concat :: "data_frame list \<Rightarrow> data_frame" where
  "pd_concat dfs =
     \<lparr>columns = first_occurrences (concat (map columns dfs)),
      rows = concat (map (\<lambda>df. map (\<lambda>r c. if c \<in> set (columns df) then r c else NaN) (rows df)) dfs)\<rparr>"

section \<open>Python values and dicts\<close>

text \<open>
  The values stored in the per-county dicts. An f-string is kept as the list of its pieces
  (\<open>PFmt\<close>), the formatting of numbers as text not being modelled. A dict is an association
  list in insertion order; \<open>dict_set\<close> is \<^verbatim>\<open>d[k] = v\<close> and \<open>dict_del\<close> is \<^verbatim>\<open>del d[k]\<close>
  (only reached in the source when the key is present).
\<close>

datatype pyval =
    PStr string
  | PInt int
  | PFloat pyfloat
  | PDict "(string \<times> pyval) list"
  | PFmt "pyval list"

type_synonym pydict = "(string \<times> pyval) list"

fun dict_set :: "('k \<times> 'v) list \<Rightarrow> 'k \<Rightarrow> 'v \<Rightarrow> ('k \<times> 'v) list" where
  "dict_set [] k v = [(k, v)]"
| "dict_set ((k', v') # d) k v = (if k' = k then (k, v) # d else (k', v') # dict_set d k v)"

fun dict_del :: "('k \<times> 'v) list \<Rightarrow> 'k \<Rightarrow> ('k \<times> 'v) list" where
  "dict_del [] k = []"
| "dict_del ((k', v') # d) k = (if k' = k then d else (k', v') # dict_del d k)"

section \<open>The files\<close>

text \<open>
  What the run reads from the disk and what it writes. \<open>glob_glob\<close> is the result of
  \<^verbatim>\<open>glob.glob\<close> on a path pattern, \<open>getctime\<close> is \<^verbatim>\<open>os.path.getctime\<close>, and \<open>read_csv\<close> is
  \<^verbatim>\<open>pd.read_csv\<close>, \<open>None\<close> when it raises. \<open>written\<close> holds the frames saved by
  \<^verbatim>\<open>to_csv\<close>, by path; a write replaces the file and is taken to succeed.
\<close>

record out_frame =
  out_columns :: "string list"
  out_rows :: "pyval list list"

record world =
  glob_glob :: "string \<Rightarrow> string list"
  getctime :: "string \<Rightarrow> real"
  read_csv :: "string \<Rightarrow> data_frame option"
  written :: "string \<rightharpoonup> out_frame"

text \<open>
  \<^verbatim>\<open>os.path.join(a, b)\<close> on a POSIX system: \<^verbatim>\<open>b\<close> alone when it starts with the separator,
  \<^verbatim>\<open>a + b\<close> when \<^verbatim>\<open>a\<close> is empty or ends with the separator, and \<^verbatim>\<open>a + '/' + b\<close> otherwise.
\<close>

fun startswith_sep :: "string \<Rightarrow> bool" where
  "startswith_sep [] = False"
| "startswith_sep (c # cs) = (c = CHR ''/'')"

definition endswith_sep :: "string \<Rightarrow> bool" where
  "endswith_sep path = startswith_sep (rev path)"

definition os_path_join :: "string \<Rightarrow> string \<Rightarrow> string" where
  "os_path_join a b =
     (if startswith_sep b then b
      else if a = [] \<or> endswith_sep a then a @ b
      else a @ ''/'' @ b)"

text \<open>\<^verbatim>\<open>max(files, key=...)\<close> keeps the first of the entries with the largest key.\<close>

fun max_from :: "('a \<Rightarrow> real) \<Rightarrow> 'a \<Rightarrow> 'a list \<Rightarrow> 'a" where
  "max_from key best [] = best"
| "max_from key best (x # xs) = max_from key (if key x > key best then x else best) xs"

definition get_latest_file :: "world \<Rightarrow> string \<Rightarrow> string \<Rightarrow> string option" where
  "get_latest_file w directory pattern =
     (case glob_glob w (os_path_join directory pattern) of
        [] \<Rightarrow> None
      | f # files \<Rightarrow> Some (max_from (getctime w) f files))"

text \<open>
  The three loaders catch every exception and return \<^verbatim>\<open>None\<close>. The weather loader reads
  every file of its directory and concatenates the frames.
\<close>

definition load_fire_data :: "world \<Rightarrow> data_frame option" where
  "load_fire_data w =
     (case get_latest_file w ''data/fire'' ''california_fires_*.csv'' of
        None \<Rightarrow> None
      | Some latest_file \<Rightarrow> read_csv w latest_file)"

fun read_all :: "world \<Rightarrow> string list \<Rightarrow> data_frame list option" where
  "read_all w [] = Some []"
| "read_all w (file # files) =
     (case read_csv w file of
        None \<Rightarrow> None
      | Some df \<Rightarrow> (case read_all w files of None \<Rightarrow> None | Some dfs \<Rightarrow> Some (df # dfs)))"

definition load_weather_data :: "world \<Rightarrow> data_frame option" where
  "load_weather_data w =
     (let weather_files = glob_glob w ''data/weather/*.csv''
      in if weather_files = [] then None
         else (case read_all w weather_files of
                 None \<Rightarrow> None
               | Some dfs \<Rightarrow> if dfs = [] then None else Some (pd_concat dfs)))"

definition load_vegetation_data :: "world \<Rightarrow> data_frame option" where
  "load_vegetation_data w =
     (case get_latest_file w ''data/vegetation'' ''*_ndvi.csv'' of
        None \<Rightarrow> None
      | Some latest_file \<Rightarrow> read_csv w latest_file)"

section \<open>Processing one county\<close>

text \<open>
  The body of the loop of \<^verbatim>\<open>process_data_by_county\<close>, in the order of the source. The boolean
  mask over the fire frame is written row by row.
\<close>

definition row_in_bounds :: "bbox \<Rightarrow> row \<Rightarrow> bool" where
  "row_in_bounds b r =
     (fge (r ''latitude'') (Fin (minlat b)) \<and> fle (r ''latitude'') (Fin (maxlat b)) \<and>
      fge (r ''longitude'') (Fin (minlon b)) \<and> fle (r ''longitude'') (Fin (maxlon b)))"

definition county_fire_df :: "data_frame \<Rightarrow> bbox \<Rightarrow> error + data_frame" where
  "county_fire_df fire_df b =
     (if ''latitude'' \<notin> set (columns fire_df) then Inl (KeyError ''latitude'')
      else if ''longitude'' \<notin> set (columns fire_df) then Inl (KeyError ''longitude'')
      else Inr (fire_df\<lparr>rows := filter (row_in_bounds b) (rows fire_df)\<rparr>))"

definition recent_fires_of :: "data_frame \<Rightarrow> nat" where
  "recent_fires_of county_fire = length (rows county_fire)"

definition avg_frp_of :: "data_frame \<Rightarrow> error + pyfloat" where
  "avg_frp_of county_fire =
     (if \<not> empty_df county_fire
      then (case column county_fire ''frp'' of
              Inl e \<Rightarrow> Inl e
            | Inr s \<Rightarrow> Inr (series_mean s))
      else Inr (Fin 0))"

text \<open>
  The fire part of the loop body (the filter, \<^verbatim>\<open>recent_fires\<close> and \<^verbatim>\<open>avg_frp\<close>), which reads
  nothing but the fire frame and the county's bounds.
\<close>

definition fire_summary :: "data_frame \<Rightarrow> bbox \<Rightarrow> error + nat \<times> pyfloat" where
  "fire_summary fire_df b =
     (case county_fire_df fire_df b of
        Inl e \<Rightarrow> Inl e
      | Inr county_fire \<Rightarrow>
          (let recent_fires = recent_fires_of county_fire
           in case avg_frp_of county_fire of
                Inl e \<Rightarrow> Inl e
              | Inr avg_frp \<Rightarrow> Inr (recent_fires, avg_frp)))"

record county_weather =
  temperature :: pyfloat
  humidity :: pyfloat
  windSpeed :: pyfloat
  windDirection :: string

definition mean_or :: "data_frame \<Rightarrow> string \<Rightarrow> real \<Rightarrow> pyfloat" where
  "mean_or df c d =
     (if c \<in> set (columns df) then series_mean (map (\<lambda>r. r c) (rows df)) else Fin d)"

definition county_weather_of :: "data_frame \<Rightarrow> county_weather" where
  "county_weather_of weather_df =
     \<lparr>temperature = mean_or weather_df ''TAVG'' 70,
      humidity = mean_or weather_df ''RHAVG'' 50,
      windSpeed = mean_or weather_df ''AWND'' 5,
      windDirection = ''NW''\<rparr>"

definition weather_items :: "county_weather \<Rightarrow> pydict" where
  "weather_items cw =
     [(''temperature'', PFloat (temperature cw)),
      (''humidity'', PFloat (humidity cw)),
      (''windSpeed'', PFloat (windSpeed cw)),
      (''windDirection'', PStr (windDirection cw))]"

text \<open>
  The dict literal stored under the county's id. \<^verbatim>\<open>int(avg_frp)\<close> raises \<^verbatim>\<open>ValueError\<close> on
  NaN; every other entry is computed from finite numbers.
\<close>

definition county_entry ::
  "string \<Rightarrow> county_info \<Rightarrow> nat \<Rightarrow> pyfloat \<Rightarrow> county_weather \<Rightarrow> real \<Rightarrow> string \<Rightarrow> error + pydict" where
  "county_entry county_name county_info recent_fires avg_frp cw suitability_score hazard_proximity =
     (let county_id = cid county_info; b = bounds county_info
      in case avg_frp of
           NaN \<Rightarrow> Inl ValueError
         | Fin frp \<Rightarrow> Inr
            [(''id'', PStr county_id),
             (''name'', PStr county_name),
             (''coordinates'', PFmt [PFloat (Fin ((minlat b + maxlat b) / 2)), PStr '', '',
                                      PFloat (Fin ((minlon b + maxlon b) / 2))]),
             (''score'', PInt (py_int (suitability_score * 0.7))),
             (''riskLevel'', PStr (if suitability_score > 80 then ''Low''
                                   else if suitability_score > 60 then ''Moderate'' else ''High'')),
             (''riskColor'', PStr (if suitability_score > 80 then ''green''
                                   else if suitability_score > 60 then ''yellow'' else ''red'')),
             (''recentFires'', PInt (int recent_fires)),
             (''heatMW'', PInt (py_int frp)),
             (''firmsScore'', PInt (py_int (100 - suitability_score * 0.5))),
             (''historicalAvg'', PFmt [PInt (max 1 (py_int (real recent_fires * 0.8))),
                                        PStr '' fires/week'']),
             (''historicalScore'', PInt (py_int (100 - suitability_score * 0.6))),
             (''suitabilityScore'', PInt (py_int suitability_score)),
             (''weatherConditions'', PDict (weather_items cw)),
             (''hazardProximity'', PStr hazard_proximity),
             (''firePersonnel'', PInt (if county_id = ''sf'' then 15 else 12)),
             (''equipmentStatus'', PStr ''Ready''),
             (''permitStatus'', PStr (if county_id = ''sf'' then ''Approved'' else ''Pending''))])"

definition process_county ::
  "data_frame \<Rightarrow> data_frame \<Rightarrow> data_frame \<Rightarrow> string \<Rightarrow> county_info \<Rightarrow> error + pydict" where
  "process_county fire_df weather_df vegetation_df county_name county_info =
     (case fire_summary fire_df (bounds county_info) of
        Inl e \<Rightarrow> Inl e
      | Inr (recent_fires, avg_frp) \<Rightarrow>
          (let cw = county_weather_of weather_df;
               county_ndvi = mean_or vegetation_df ''ndvi'' 0.5;
               suitability_score =
                 calculate_suitability_score (Fin (real recent_fires)) avg_frp
                   (temperature cw) (humidity cw) (windSpeed cw) county_ndvi;
               hazard_proximity =
                 (if suitability_score > 80 then ''Low''
                  else if suitability_score > 60 then ''Medium'' else ''High'')
           in county_entry county_name county_info recent_fires avg_frp cw
                suitability_score hazard_proximity))"

fun process_counties ::
  "data_frame \<Rightarrow> data_frame \<Rightarrow> data_frame \<Rightarrow> counties \<Rightarrow> (string \<times> pydict) list
     \<Rightarrow> error + (string \<times> pydict) list" where
  "process_counties fire_df weather_df vegetation_df [] county_data = Inr county_data"
| "process_counties fire_df weather_df vegetation_df ((county_name, county_info) # rest) county_data =
     (case process_county fire_df weather_df vegetation_df county_name county_info of
        Inl e \<Rightarrow> Inl e
      | Inr d \<Rightarrow> process_counties fire_df weather_df vegetation_df rest
                  (dict_set county_data (cid county_info) d))"

section \<open>Saving\<close>

text \<open>
  \<^verbatim>\<open>pd.DataFrame(list of dicts)\<close>: the keys in the order of their first appearance as
  columns, one row per dict, NaN where a dict has no such key. \<^verbatim>\<open>to_csv\<close> stores the frame
  under its path.
\<close>

definition DataFrame :: "pydict list \<Rightarrow> out_frame" where
  "DataFrame ds =
     (let cols = first_occurrences (concat (map (map fst) ds))
      in \<lparr>out_columns = cols,
          out_rows = map (\<lambda>d. map (\<lambda>c. case map_of d c of Some v \<Rightarrow> v | None \<Rightarrow> PFloat NaN) cols) ds\<rparr>)"

definition to_csv :: "out_frame \<Rightarrow> string \<Rightarrow> world \<Rightarrow> world" where
  "to_csv df path w = w\<lparr>written := (written w)(path \<mapsto> df)\<rparr>"

fun flatten_items :: "pydict \<Rightarrow> pydict \<Rightarrow> pydict" where
  "flatten_items flat_data [] = flat_data"
| "flatten_items flat_data ((key, v) # items) =
     flatten_items (dict_set flat_data (''weather_'' @ key) v) items"

text \<open>
  The flattening of one county's dict. \<^verbatim>\<open>.items()\<close> on a value that is no dict raises
  \<^verbatim>\<open>AttributeError\<close>.
\<close>

definition flatten :: "pydict \<Rightarrow> error + pydict" where
  "flatten data =
     (let flat_data = data
      in case map_of flat_data ''weatherConditions'' of
           None \<Rightarrow> Inr flat_data
         | Some (PDict items) \<Rightarrow> Inr (dict_del (flatten_items flat_data items) ''weatherConditions'')
         | Some _ \<Rightarrow> Inl AttributeError)"

fun save_counties :: "(string \<times> pydict) list \<Rightarrow> world \<Rightarrow> bool \<times> world" where
  "save_counties [] w = (True, w)"
| "save_counties ((county_id, data) # rest) w =
     (case flatten data of
        Inl e \<Rightarrow> (False, w)
      | Inr flat_data \<Rightarrow>
          save_counties rest
            (to_csv (DataFrame [flat_data])
               (os_path_join ''data/processed'' (county_id @ ''_processed.csv'')) w))"

text \<open>
  \<^verbatim>\<open>save_processed_data\<close> catches every exception and returns \<^verbatim>\<open>False\<close>, the files written
  before it staying. The combined frame is built from the dicts of \<^verbatim>\<open>county_data\<close>
  themselves: \<^verbatim>\<open>flat_data\<close> is a copy, so the flattening has not changed them.
\<close>

definition save_processed_data :: "(string \<times> pydict) list \<Rightarrow> world \<Rightarrow> bool \<times> world" where
  "save_processed_data county_data w =
     (case save_counties county_data w of
        (False, w') \<Rightarrow> (False, w')
      | (True, w') \<Rightarrow>
          (True, to_csv (DataFrame (map snd county_data))
                   (os_path_join ''data/processed'' ''all_counties.csv'') w'))"

section \<open>The run\<close>

text \<open>
  \<^verbatim>\<open>process_data_by_county\<close>: \<^verbatim>\<open>False\<close> before anything is computed when a loader returned
  \<^verbatim>\<open>None\<close>; an exception of the loop leaves the function (\<open>Inl\<close>); the result of
  \<^verbatim>\<open>save_processed_data\<close> is ignored and \<^verbatim>\<open>True\<close> is returned.
\<close>

definition process_data_by_county :: "counties \<Rightarrow> world \<Rightarrow> error + bool \<times> world" where
  "process_data_by_county cs w =
     (case (load_fire_data w, load_weather_data w, load_vegetation_data w) of
        (Some fire_df, Some weather_df, Some vegetation_df) \<Rightarrow>
          (case process_counties fire_df weather_df vegetation_df cs [] of
             Inl e \<Rightarrow> Inl e
           | Inr county_data \<Rightarrow> Inr (True, snd (save_processed_data county_data w)))
      | _ \<Rightarrow> Inr (False, w))"

section \<open>Notions used by the properties\<close>

text \<open>A factor within the unit interval; NaN is not.\<close>

fun in_unit :: "pyfloat \<Rightarrow> bool" where
  "in_unit (Fin v) = (0 \<le> v \<and> v \<le> 1)"
| "in_unit NaN = False"

text \<open>The score of a summary whose six numbers are finite.\<close>

definition score_of :: "real \<Rightarrow> real \<Rightarrow> real \<Rightarrow> real \<Rightarrow> real \<Rightarrow> real \<Rightarrow> real" where
  "score_of f p t h w n =
     calculate_suitability_score (Fin f) (Fin p) (Fin t) (Fin h) (Fin w) (Fin n)"

text \<open>The same score before it is clamped to the range 0 to 100.\<close>

definition raw_score :: "real \<Rightarrow> real \<Rightarrow> real \<Rightarrow> real \<Rightarrow> real \<Rightarrow> real \<Rightarrow> real" where
  "raw_score f p t h w n =
     50 + (min 1 (f / 20) * (-0.2) + (min 1 (p / 1000) * (-0.1) + ((t - 50) / 50 * (-0.15) +
       (h / 100 * 0.25 + (w / 20 * (-0.2) + (n * 0.1 + 0)))))) * 50"

text \<open>The value stored under a key of a county's dict, when the dict was built.\<close>

definition entry_field :: "error + pydict \<Rightarrow> string \<Rightarrow> pyval option" where
  "entry_field r k = (case r of Inl e \<Rightarrow> None | Inr d \<Rightarrow> map_of d k)"

text \<open>
  The scenario of ten fires with mean FRP 2, temperature 75, humidity 40, wind speed 8 and
  NDVI 0.5, as the dict that the loop builds for San Francisco from these numbers.
\<close>

definition sf_info :: county_info where
  "sf_info = \<lparr>cid = ''sf'',
     bounds = \<lparr>minlat = 37.7, maxlat = 37.8, minlon = -122.5, maxlon = -122.3\<rparr>\<rparr>"

definition la_info :: county_info where
  "la_info = \<lparr>cid = ''la'',
     bounds = \<lparr>minlat = 33.7, maxlat = 34.8, minlon = -118.7, maxlon = -117.7\<rparr>\<rparr>"

definition scenario_weather :: county_weather where
  "scenario_weather =
     \<lparr>temperature = Fin 75, humidity = Fin 40, windSpeed = Fin 8, windDirection = ''NW''\<rparr>"

definition scenario_entry :: "error + pydict" where
  "scenario_entry =
     county_entry ''San Francisco'' sf_info 10 (Fin 2) scenario_weather
       (score_of 10 2 75 40 8 0.5)
       (if score_of 10 2 75 40 8 0.5 > 80 then ''Low''
        else if score_of 10 2 75 40 8 0.5 > 60 then ''Medium'' else ''High'')"

text \<open>
  A point within a bounding box, the four edges included, as the specification words it.
\<close>

definition contains :: "bbox \<Rightarrow> real \<Rightarrow> real \<Rightarrow> bool" where
  "contains b lat lon =
     (minlat b \<le> lat \<and> lat \<le> maxlat b \<and> minlon b \<le> lon \<and> lon \<le> maxlon b)"

text \<open>
  A fire point with finite coordinates and FRP (and whatever its other cells hold), the row
  it makes in the fire frame, and the fire frame of a list of such points under any list of
  column names.
\<close>

record fire_point =
  fp_lat :: real
  fp_lon :: real
  fp_frp :: real
  fp_other :: "string \<Rightarrow> pyfloat"

definition point_row :: "fire_point \<Rightarrow> row" where
  "point_row pt =
     (\<lambda>c. if c = ''latitude'' then Fin (fp_lat pt)
          else if c = ''longitude'' then Fin (fp_lon pt)
          else if c = ''frp'' then Fin (fp_frp pt)
          else fp_other pt c)"

definition fire_frame :: "string list \<Rightarrow> fire_point list \<Rightarrow> data_frame" where
  "fire_frame cols pts = \<lparr>columns = cols, rows = map point_row pts\<rparr>"

text \<open>
  The fire points within a box; the fire points that \<open>assign_to_county\<close> resolves to the
  county of a given id; the mean FRP of a list of points, 0 for none.
\<close>

definition points_within :: "bbox \<Rightarrow> fire_point list \<Rightarrow> fire_point list" where
  "points_within b pts = filter (\<lambda>pt. contains b (fp_lat pt) (fp_lon pt)) pts"

definition resolved_to :: "counties \<Rightarrow> string \<Rightarrow> fire_point list \<Rightarrow> fire_point list" where
  "resolved_to cs i pts =
     filter (\<lambda>pt. assign_to_county cs (Fin (fp_lat pt)) (Fin (fp_lon pt)) = Some i) pts"

definition mean_frp :: "fire_point list \<Rightarrow> real" where
  "mean_frp pts = (if pts = [] then 0 else sum_list (map fp_frp pts) / real (length pts))"

text \<open>Two boxes apart in latitude or in longitude; a registry whose boxes are so pairwise.\<close>

definition boxes_apart :: "bbox \<Rightarrow> bbox \<Rightarrow> bool" where
  "boxes_apart a b =
     (maxlat a < minlat b \<or> maxlat b < minlat a \<or> maxlon a < minlon b \<or> maxlon b < minlon a)"

fun pairwise_apart :: "counties \<Rightarrow> bool" where
  "pairwise_apart [] = True"
| "pairwise_apart ((county_name, county_info) # rest) =
     (list_all (\<lambda>(n, i). boxes_apart (bounds county_info) (bounds i)) rest \<and> pairwise_apart rest)"

text \<open>
  A registry of two counties whose boxes overlap, and one fire point within both boxes.
\<close>

definition north_info :: county_info where
  "north_info = \<lparr>cid = ''n'', bounds = \<lparr>minlat = 0, maxlat = 10, minlon = 0, maxlon = 10\<rparr>\<rparr>"

definition east_info :: county_info where
  "east_info = \<lparr>cid = ''e'', bounds = \<lparr>minlat = 5, maxlat = 15, minlon = 5, maxlon = 15\<rparr>\<rparr>"

definition overlap_registry :: counties where
  "overlap_registry = [(''North'', north_info), (''East'', east_info)]"

definition shared_point :: fire_point where
  "shared_point = \<lparr>fp_lat = 7, fp_lon = 7, fp_frp = 12, fp_other = (\<lambda>c. NaN)\<rparr>"

definition fire_columns :: "string list" where
  "fire_columns = [''latitude'', ''longitude'', ''frp'']"

text \<open>Two fire points, the first in San Francisco and the second in no county.\<close>

definition sf_point :: fire_point where
  "sf_point = \<lparr>fp_lat = 37.75, fp_lon = -122.4, fp_frp = 12, fp_other = (\<lambda>c. NaN)\<rparr>"

definition far_point :: fire_point where
  "far_point = \<lparr>fp_lat = 40, fp_lon = -120, fp_frp = 30, fp_other = (\<lambda>c. NaN)\<rparr>"

text \<open>
  The paths of the files written, the cell under a column in a file holding one record, and
  what a run returned and left on the disk.
\<close>

definition county_path :: "string \<Rightarrow> string" where
  "county_path county_id = os_path_join ''data/processed'' (county_id @ ''_processed.csv'')"

definition combined_path :: string where
  "combined_path = os_path_join ''data/processed'' ''all_counties.csv''"

definition cell :: "out_frame \<Rightarrow> string \<Rightarrow> pyval option" where
  "cell df c = (case out_rows df of [r] \<Rightarrow> map_of (zip (out_columns df) r) c | _ \<Rightarrow> None)"

definition persisted :: "world \<Rightarrow> string \<Rightarrow> string \<Rightarrow> pyval option" where
  "persisted w path c = (case written w path of None \<Rightarrow> None | Some df \<Rightarrow> cell df c)"

definition returned :: "error + bool \<times> world \<Rightarrow> bool option" where
  "returned r = (case r of Inl e \<Rightarrow> None | Inr (ok, w) \<Rightarrow> Some ok)"


definition persisted_after :: "error + bool \<times> world \<Rightarrow> string \<Rightarrow> string \<Rightarrow> pyval option" where
  "persisted_after r path c = (case r of Inl e \<Rightarrow> None | Inr (ok, w) \<Rightarrow> persisted w path c)"

definition columns_after :: "error + bool \<times> world \<Rightarrow> string \<Rightarrow> string list option" where
  "columns_after r path =
     (case r of Inl e \<Rightarrow> None | Inr (ok, w) \<Rightarrow> map_option out_columns (written w path))"

text \<open>
  A disk with one fire file (a point in San Francisco and a point in no county), one weather
  file that has a humidity column only, and one vegetation file; nothing written yet.
\<close>

definition sample_glob :: "string \<Rightarrow> string list" where
  "sample_glob pattern =
     (if pattern = ''data/fire/california_fires_*.csv'' then [''data/fire/california_fires_1.csv'']
      else if pattern = ''data/weather/*.csv'' then [''data/weather/station.csv'']
      else if pattern = ''data/vegetation/*_ndvi.csv'' then [''data/vegetation/ca_ndvi.csv'']
      else [])"

definition humidity_frame :: data_frame where
  "humidity_frame =
     \<lparr>columns = [''DATE'', ''RHAVG''], rows = [\<lambda>c. if c = ''RHAVG'' then Fin 40 else NaN]\<rparr>"

definition ndvi_frame :: data_frame where
  "ndvi_frame = \<lparr>columns = [''ndvi''], rows = [\<lambda>c. if c = ''ndvi'' then Fin 0.5 else NaN]\<rparr>"

definition sample_world :: world where
  "sample_world =
     \<lparr>glob_glob = sample_glob,
      getctime = (\<lambda>path. 0),
      read_csv = (\<lambda>path.
         if path = ''data/fire/california_fires_1.csv''
         then Some (fire_frame fire_columns [sf_point, far_point])
         else if path = ''data/weather/station.csv'' then Some humidity_frame
         else if path = ''data/vegetation/ca_ndvi.csv'' then Some ndvi_frame
         else None),
      written = Map.empty\<rparr>"

text \<open>
  The same disk with another weather file, which has temperature, humidity, wind speed and
  a wind direction column.
\<close>

definition full_weather_frame :: data_frame where
  "full_weather_frame =
     \<lparr>columns = [''DATE'', ''TAVG'', ''RHAVG'', ''AWND'', ''WDF2''],
      rows = [\<lambda>c. if c = ''TAVG'' then Fin 90 else if c = ''RHAVG'' then Fin 20
                   else if c = ''AWND'' then Fin 15 else if c = ''WDF2'' then Fin 180 else NaN]\<rparr>"

definition windy_world :: world where
  "windy_world =
     sample_world\<lparr>read_csv := (\<lambda>path.
         if path = ''data/weather/station.csv'' then Some full_weather_frame
         else read_csv sample_world path)\<rparr>"






text \<open>The columns of a county's dict, and those of its flattened copy.\<close>

definition entry_columns :: "string list" where
  "entry_columns =
     [''id'', ''name'', ''coordinates'', ''score'', ''riskLevel'', ''riskColor'', ''recentFires'',
      ''heatMW'', ''firmsScore'', ''historicalAvg'', ''historicalScore'', ''suitabilityScore'',
      ''weatherConditions'', ''hazardProximity'', ''firePersonnel'', ''equipmentStatus'',
      ''permitStatus'']"

definition flat_columns :: "string list" where
  "flat_columns =
     [''id'', ''name'', ''coordinates'', ''score'', ''riskLevel'', ''riskColor'', ''recentFires'',
      ''heatMW'', ''firmsScore'', ''historicalAvg'', ''historicalScore'', ''suitabilityScore'',
      ''hazardProximity'', ''firePersonnel'', ''equipmentStatus'', ''permitStatus'',
      ''weather_temperature'', ''weather_humidity'', ''weather_windSpeed'',
      ''weather_windDirection'']"

text \<open>
  A file holding the flattened record of one county, with the weather of a given weather
  dict in its four weather columns; a county's dict that flattens to such a record; such a
  file on the disk under a path.
\<close>

definition county_record :: "county_weather \<Rightarrow> out_frame \<Rightarrow> bool" where
  "county_record cw df =
     (out_columns df = flat_columns \<and> length (out_rows df) = 1 \<and>
      cell df ''weather_temperature'' = Some (PFloat (temperature cw)) \<and>
      cell df ''weather_humidity'' = Some (PFloat (humidity cw)) \<and>
      cell df ''weather_windSpeed'' = Some (PFloat (windSpeed cw)) \<and>
      cell df ''weather_windDirection'' = Some (PStr (windDirection cw)))"

definition good_entry :: "county_weather \<Rightarrow> pydict \<Rightarrow> bool" where
  "good_entry cw d =
     (map fst d = entry_columns \<and>
      (case flatten d of Inl e \<Rightarrow> False | Inr flat_data \<Rightarrow> county_record cw (DataFrame [flat_data])))"

definition good_file :: "county_weather \<Rightarrow> world \<Rightarrow> string \<Rightarrow> bool" where
  "good_file cw w path =
     (case written w path of None \<Rightarrow> False | Some df \<Rightarrow> county_record cw df)"

section \<open>Properties of the suitability score\<close>

lemma py_min_fin: "py_min a (Fin b) = min a b"
  by (simp add: min_def)

lemma py_max_fin: "py_max a (Fin b) = max a b"
  by (simp add: max_def)

lemma weighted_sum_fin:
  "weighted_sum (Fin f) (Fin p) (Fin t) (Fin h) (Fin w) (Fin n) =
     Fin (min 1 (f / 20) * (-0.2) + (min 1 (p / 1000) * (-0.1) + ((t - 50) / 50 * (-0.15) +
          (h / 100 * 0.25 + (w / 20 * (-0.2) + (n * 0.1 + 0))))))"
  by (simp add: weighted_sum_def normalized_factors_def weights_def py_min_fin del: py_min.simps)

lemma score_fin:
  "score_of f p t h w n = max 0 (min 100 (raw_score f p t h w n))"
  unfolding score_of_def calculate_suitability_score_def weighted_sum_fin raw_score_def
  by (simp add: py_min_fin py_max_fin Let_def del: py_min.simps py_max.simps)








lemma scenario_score: "score_of 10 2 75 40 8 0.5 = 44.74"
  unfolding score_fin raw_score_def by simp

lemma scenario_entry_eq:
  "scenario_entry =
     county_entry ''San Francisco'' sf_info 10 (Fin 2) scenario_weather 44.74 ''High''"
  unfolding scenario_entry_def scenario_score by simp

lemma py_int_scenario: "py_int (15659 / 500) = 31"
  unfolding py_int_def by (simp add: floor_eq_iff)

text \<open>
  C1 (as amended). For the summary of ten fires, mean FRP 2, temperature 75, humidity 40,
  wind speed 8 and NDVI 0.5, the normalized factors are 0.5, 0.002, 0.5, 0.4, 0.4, 0.5, the
  weighted sum is -0.1052, the suitability is 50 + (-0.1052 * 50) = 44.74 and the risk score
  is 31; the risk level is High and the risk colour red, since 44.74 does not exceed 60.
\<close>

theorem C1_scenario:
  "normalized_factors (Fin 10) (Fin 2) (Fin 75) (Fin 40) (Fin 8) (Fin 0.5) =
     [Fin 0.5, Fin 0.002, Fin 0.5, Fin 0.4, Fin 0.4, Fin 0.5] \<and>
   weighted_sum (Fin 10) (Fin 2) (Fin 75) (Fin 40) (Fin 8) (Fin 0.5) = Fin (-0.1052) \<and>
   score_of 10 2 75 40 8 0.5 = 50 + (-0.1052 * 50) \<and>
   score_of 10 2 75 40 8 0.5 = 44.74 \<and>
   entry_field scenario_entry ''score'' = Some (PInt 31) \<and>
   entry_field scenario_entry ''riskLevel'' = Some (PStr ''High'') \<and>
   entry_field scenario_entry ''riskColor'' = Some (PStr ''red'')"
proof -
  have nf: "normalized_factors (Fin 10) (Fin 2) (Fin 75) (Fin 40) (Fin 8) (Fin 0.5) =
     [Fin 0.5, Fin 0.002, Fin 0.5, Fin 0.4, Fin 0.4, Fin 0.5]"
    by (simp add: normalized_factors_def)
  have ws: "weighted_sum (Fin 10) (Fin 2) (Fin 75) (Fin 40) (Fin 8) (Fin 0.5) = Fin (-0.1052)"
    unfolding weighted_sum_fin by simp
  have sc: "entry_field scenario_entry ''score'' = Some (PInt 31)"
    unfolding scenario_entry_eq
    by (simp add: entry_field_def county_entry_def Let_def py_int_scenario)
  have rl: "entry_field scenario_entry ''riskLevel'' = Some (PStr ''High'')"
    unfolding scenario_entry_eq by (simp add: entry_field_def county_entry_def Let_def)
  have rc: "entry_field scenario_entry ''riskColor'' = Some (PStr ''red'')"
    unfolding scenario_entry_eq by (simp add: entry_field_def county_entry_def Let_def)
  show ?thesis using nf ws scenario_score sc rl rc by simp
qed

text \<open>
  The claim as written gives this scenario the risk level Moderate and the colour yellow;
  the dict holds neither.
\<close>

theorem C1_counterexample:
  "\<not> (entry_field scenario_entry ''riskLevel'' = Some (PStr ''Moderate'') \<and>
      entry_field scenario_entry ''riskColor'' = Some (PStr ''yellow''))"
  unfolding scenario_entry_eq by (simp add: entry_field_def county_entry_def Let_def)

text \<open>
  C2 (as amended). For finite inputs the six normalized factors are min(1, fires/20),
  min(1, frp/1000), (temperature - 50)/50, humidity/100, wind/20 and the NDVI as it is. Only
  the first two are capped: all six lie in the unit interval exactly when the fire count and
  the FRP are not negative, the temperature is between 50 and 100, the humidity between 0 and
  100, the wind speed between 0 and 20 and the NDVI between 0 and 1.
\<close>

theorem C2_normalized_factors:
  "normalized_factors (Fin f) (Fin p) (Fin t) (Fin h) (Fin w) (Fin n) =
     [Fin (min 1 (f / 20)), Fin (min 1 (p / 1000)), Fin ((t - 50) / 50), Fin (h / 100),
      Fin (w / 20), Fin n] \<and>
   (list_all in_unit (normalized_factors (Fin f) (Fin p) (Fin t) (Fin h) (Fin w) (Fin n)) =
     (0 \<le> f \<and> 0 \<le> p \<and> (50 \<le> t \<and> t \<le> 100) \<and> (0 \<le> h \<and> h \<le> 100) \<and>
      (0 \<le> w \<and> w \<le> 20) \<and> (0 \<le> n \<and> n \<le> 1)))"
proof -
  have nf: "normalized_factors (Fin f) (Fin p) (Fin t) (Fin h) (Fin w) (Fin n) =
     [Fin (min 1 (f / 20)), Fin (min 1 (p / 1000)), Fin ((t - 50) / 50), Fin (h / 100),
      Fin (w / 20), Fin n]"
    by (simp add: normalized_factors_def py_min_fin del: py_min.simps)
  have "list_all in_unit [Fin (min 1 (f / 20)), Fin (min 1 (p / 1000)), Fin ((t - 50) / 50),
      Fin (h / 100), Fin (w / 20), Fin n] =
     (0 \<le> f \<and> 0 \<le> p \<and> (50 \<le> t \<and> t \<le> 100) \<and> (0 \<le> h \<and> h \<le> 100) \<and>
      (0 \<le> w \<and> w \<le> 20) \<and> (0 \<le> n \<and> n \<le> 1))"
    by (auto simp: min_def)
  with nf show ?thesis by simp
qed

theorem C2_witness:
  "list_all in_unit (normalized_factors (Fin 10) (Fin 2) (Fin 75) (Fin 40) (Fin 8) (Fin 0.5))"
  using C2_normalized_factors [of 10 2 75 40 8 "0.5"] by simp

text \<open>A wind speed of 30 gives the wind factor 1.5, outside the unit interval.\<close>

theorem C2_counterexample:
  "\<not> list_all in_unit (normalized_factors (Fin 10) (Fin 2) (Fin 75) (Fin 40) (Fin 30) (Fin 0.5))"
  by (simp add: normalized_factors_def)




text \<open>
  C4. The suitability returned by the scoring model lies between 0 and 100, for every input:
  every finite one, negative or not and however large, and NaN as well.
\<close>

theorem C4_score_range:
  "0 \<le> calculate_suitability_score f p t h w n \<and>
   calculate_suitability_score f p t h w n \<le> 100"
proof -
  have a: "0 \<le> py_max 0 x" for x by (cases x) simp_all
  have b: "py_min 100 y \<le> 100" for y by (cases y) simp_all
  have d: "py_max 0 (Fin v) \<le> 100" if "v \<le> 100" for v using that by simp
  show ?thesis
    unfolding calculate_suitability_score_def Let_def
    by (intro conjI a d b)
qed

text \<open>With 10000 recent fires.\<close>

theorem C4_witness:
  "0 \<le> calculate_suitability_score (Fin 10000) (Fin 2) (Fin 75) (Fin 40) (Fin 8) (Fin 0.5) \<and>
   calculate_suitability_score (Fin 10000) (Fin 2) (Fin 75) (Fin 40) (Fin 8) (Fin 0.5) \<le> 100"
  using C4_score_range [of "Fin 10000" "Fin 2" "Fin 75" "Fin 40" "Fin 8" "Fin 0.5"] by simp

section \<open>Properties of the assignment and of the fire summary\<close>

lemma fle_fin: "fle (Fin a) (Fin b) = (a \<le> b)"
  by simp

lemma assign_step:
  "assign_to_county ((name, info) # rest) (Fin lat) (Fin lon) =
     (if contains (bounds info) lat lon then Some (cid info)
      else assign_to_county rest (Fin lat) (Fin lon))"
  by (simp add: contains_def Let_def)

lemma assign_None_iff:
  "assign_to_county cs (Fin lat) (Fin lon) = None \<longleftrightarrow>
     (\<forall>x \<in> set cs. \<not> contains (bounds (snd x)) lat lon)"
proof (induction cs)
  case Nil
  show ?case by simp
next
  case (Cons x cs)
  obtain name info where x: "x = (name, info)" by (cases x)
  show ?case unfolding x assign_step using Cons.IH by simp
qed

lemma assign_first:
  "k < length cs \<Longrightarrow> contains (bounds (snd (cs ! k))) lat lon \<Longrightarrow>
   (\<forall>j < k. \<not> contains (bounds (snd (cs ! j))) lat lon) \<Longrightarrow>
   assign_to_county cs (Fin lat) (Fin lon) = Some (cid (snd (cs ! k)))"
proof (induction cs arbitrary: k)
  case Nil
  then show ?case by simp
next
  case (Cons x cs)
  obtain name info where x: "x = (name, info)" by (cases x)
  show ?case
  proof (cases k)
    case 0
    with Cons.prems show ?thesis unfolding x assign_step by simp
  next
    case (Suc k')
    from Cons.prems(3) Suc have head: "\<not> contains (bounds info) lat lon"
      unfolding x by fastforce
    have k': "k' < length cs" using Cons.prems(1) Suc by simp
    have c: "contains (bounds (snd (cs ! k'))) lat lon" using Cons.prems(2) Suc by simp
    have n: "\<forall>j < k'. \<not> contains (bounds (snd (cs ! j))) lat lon"
    proof (intro allI impI)
      fix j assume "j < k'"
      then have "Suc j < k" using Suc by simp
      with Cons.prems(3) have "\<not> contains (bounds (snd ((x # cs) ! Suc j))) lat lon" by blast
      then show "\<not> contains (bounds (snd (cs ! j))) lat lon" by simp
    qed
    from Cons.IH [OF k' c n] head Suc show ?thesis unfolding x assign_step by simp
  qed
qed

text \<open>
  C5. For every point, \<open>assign_to_county\<close> goes through the registry in its order and returns
  the id of the first county whose box contains the point, the four edges included: it
  returns nothing exactly when no box contains the point, and when the box at position k
  contains it and no box before k does, it returns the county at k, whatever boxes after k
  contain the point too.
\<close>

theorem C5_assign_first_match:
  "(assign_to_county cs (Fin lat) (Fin lon) = None \<longleftrightarrow>
      (\<forall>k < length cs. \<not> contains (bounds (snd (cs ! k))) lat lon)) \<and>
   (\<forall>k < length cs.
      contains (bounds (snd (cs ! k))) lat lon \<and>
      (\<forall>j < k. \<not> contains (bounds (snd (cs ! j))) lat lon) \<longrightarrow>
      assign_to_county cs (Fin lat) (Fin lon) = Some (cid (snd (cs ! k))))"
proof -
  have a: "assign_to_county cs (Fin lat) (Fin lon) = None \<longleftrightarrow>
      (\<forall>k < length cs. \<not> contains (bounds (snd (cs ! k))) lat lon)"
    unfolding assign_None_iff by (simp add: all_set_conv_all_nth)
  from a assign_first show ?thesis by blast
qed

text \<open>
  In the overlapping registry the point (7, 7) is in both boxes and goes to the first county;
  (12, 12) is only in the second box, (20, 20) in none.
\<close>

theorem C5_witness:
  "contains (bounds (snd (overlap_registry ! 0))) 7 7 \<and>
   contains (bounds (snd (overlap_registry ! 1))) 7 7 \<and>
   assign_to_county overlap_registry (Fin 7) (Fin 7) = Some ''n'' \<and>
   assign_to_county overlap_registry (Fin 12) (Fin 12) = Some ''e'' \<and>
   assign_to_county overlap_registry (Fin 20) (Fin 20) = None"
proof -
  have len: "length overlap_registry = 2" by (simp add: overlap_registry_def)
  have c0: "contains (bounds (snd (overlap_registry ! 0))) 7 7"
    by (simp add: overlap_registry_def north_info_def contains_def)
  have c1: "contains (bounds (snd (overlap_registry ! 1))) 7 7"
    by (simp add: overlap_registry_def east_info_def contains_def)
  have d0: "\<not> contains (bounds (snd (overlap_registry ! 0))) 12 12"
    by (simp add: overlap_registry_def north_info_def contains_def)
  have d1: "contains (bounds (snd (overlap_registry ! 1))) 12 12"
    by (simp add: overlap_registry_def east_info_def contains_def)
  have e: "\<forall>k < length overlap_registry. \<not> contains (bounds (snd (overlap_registry ! k))) 20 20"
    by (simp add: overlap_registry_def east_info_def north_info_def contains_def
        less_Suc_eq numeral_2_eq_2)
  have i0: "cid (snd (overlap_registry ! 0)) = ''n''"
    by (simp add: overlap_registry_def north_info_def)
  have i1: "cid (snd (overlap_registry ! 1)) = ''e''"
    by (simp add: overlap_registry_def east_info_def)
  have r0: "assign_to_county overlap_registry (Fin 7) (Fin 7) = Some ''n''"
    using C5_assign_first_match [of overlap_registry 7 7, THEN conjunct2, rule_format, of 0]
      c0 len i0 by simp
  have r1: "assign_to_county overlap_registry (Fin 12) (Fin 12) = Some ''e''"
    using C5_assign_first_match [of overlap_registry 12 12, THEN conjunct2, rule_format, of 1]
      d0 d1 len i1 by simp
  have r2: "assign_to_county overlap_registry (Fin 20) (Fin 20) = None"
    using C5_assign_first_match [of overlap_registry 20 20, THEN conjunct1] e by simp
  from c0 c1 r0 r1 r2 show ?thesis by simp
qed

lemma row_in_bounds_point:
  "row_in_bounds b (point_row pt) = contains b (fp_lat pt) (fp_lon pt)"
  by (simp add: row_in_bounds_def point_row_def contains_def fge_def)

lemma filter_point_rows:
  "filter (row_in_bounds b) (map point_row pts) = map point_row (points_within b pts)"
  by (induction pts) (simp_all add: points_within_def row_in_bounds_point)

lemma values_of_fin: "values_of (map (\<lambda>pt. Fin (g pt)) pts) = map g pts"
  by (induction pts) simp_all

lemma frp_cells: "map (\<lambda>r. r ''frp'') (map point_row pts) = map (\<lambda>pt. Fin (fp_frp pt)) pts"
  by (simp add: point_row_def)

lemma series_mean_points:
  "pts \<noteq> [] \<Longrightarrow>
     series_mean (map (\<lambda>r. r ''frp'') (map point_row pts)) = Fin (mean_frp pts)"
  unfolding frp_cells series_mean_def values_of_fin by (simp add: mean_frp_def Let_def)

lemma fire_summary_points:
  assumes "''latitude'' \<in> set cols" "''longitude'' \<in> set cols" "''frp'' \<in> set cols"
  shows "fire_summary (fire_frame cols pts) b =
           Inr (length (points_within b pts), Fin (mean_frp (points_within b pts)))"
proof -
  have cf: "county_fire_df (fire_frame cols pts) b =
              Inr (fire_frame cols (points_within b pts))"
    using assms by (simp add: county_fire_df_def fire_frame_def filter_point_rows)
  have n: "recent_fires_of (fire_frame cols (points_within b pts)) = length (points_within b pts)"
    by (simp add: recent_fires_of_def fire_frame_def)
  have ne: "cols \<noteq> []" using assms(1) by auto
  have a: "avg_frp_of (fire_frame cols (points_within b pts)) =
             Inr (Fin (mean_frp (points_within b pts)))"
  proof (cases "points_within b pts = []")
    case True
    then show ?thesis by (simp add: avg_frp_of_def empty_df_def fire_frame_def mean_frp_def)
  next
    case False
    then show ?thesis
      using assms(3) ne series_mean_points [OF False]
      by (simp add: avg_frp_of_def empty_df_def fire_frame_def column_def)
  qed
  show ?thesis unfolding fire_summary_def cf by (simp add: n a Let_def)
qed

lemma assign_Some_contains:
  "assign_to_county cs (Fin lat) (Fin lon) = Some i \<Longrightarrow>
     \<exists>x \<in> set cs. contains (bounds (snd x)) lat lon \<and> cid (snd x) = i"
proof (induction cs)
  case Nil
  then show ?case by simp
next
  case (Cons x cs)
  obtain name info where x: "x = (name, info)" by (cases x)
  from Cons show ?case unfolding x assign_step by (auto split: if_splits)
qed

lemma boxes_apart_no_common:
  "boxes_apart a b \<Longrightarrow> contains a lat lon \<Longrightarrow> \<not> contains b lat lon"
  by (auto simp: boxes_apart_def contains_def)

lemma boxes_apart_sym: "boxes_apart a b = boxes_apart b a"
  by (auto simp: boxes_apart_def)

lemma assign_apart:
  "pairwise_apart cs \<Longrightarrow> x \<in> set cs \<Longrightarrow> contains (bounds (snd x)) lat lon \<Longrightarrow>
     assign_to_county cs (Fin lat) (Fin lon) = Some (cid (snd x))"
proof (induction cs)
  case Nil
  then show ?case by simp
next
  case (Cons y cs)
  obtain name info where y: "y = (name, info)" by (cases y)
  show ?case
  proof (cases "x = y")
    case True
    with Cons.prems(3) show ?thesis unfolding y assign_step by simp
  next
    case False
    with Cons.prems(2) have xin: "x \<in> set cs" by simp
    from Cons.prems(1) have ap: "boxes_apart (bounds info) (bounds (snd x))"
      and rest: "pairwise_apart cs"
      using xin unfolding y by (auto simp: list_all_iff)
    from ap Cons.prems(3) have "\<not> contains (bounds info) lat lon"
      using boxes_apart_no_common boxes_apart_sym by blast
    with Cons.IH [OF rest xin Cons.prems(3)] show ?thesis unfolding y assign_step by simp
  qed
qed

lemma within_eq_resolved:
  assumes ap: "pairwise_apart cs" and d: "distinct (map (\<lambda>x. cid (snd x)) cs)"
    and x: "(name, info) \<in> set cs"
  shows "points_within (bounds info) pts = resolved_to cs (cid info) pts"
proof -
  have "contains (bounds info) lat lon \<longleftrightarrow>
          assign_to_county cs (Fin lat) (Fin lon) = Some (cid info)" for lat lon
  proof
    assume "contains (bounds info) lat lon"
    with assign_apart [OF ap x] show "assign_to_county cs (Fin lat) (Fin lon) = Some (cid info)"
      by simp
  next
    assume "assign_to_county cs (Fin lat) (Fin lon) = Some (cid info)"
    from assign_Some_contains [OF this] obtain y where
      y: "y \<in> set cs" "contains (bounds (snd y)) lat lon" "cid (snd y) = cid info" by blast
    from d have "inj_on (\<lambda>x. cid (snd x)) (set cs)" by (simp add: distinct_map)
    moreover have "(\<lambda>x. cid (snd x)) y = (\<lambda>x. cid (snd x)) (name, info)"
      using y(3) by simp
    ultimately have "y = (name, info)" using y(1) x by (rule inj_onD)
    with y(2) show "contains (bounds info) lat lon" by simp
  qed
  then show ?thesis by (simp add: points_within_def resolved_to_def)
qed

text \<open>
  C6 (as amended). For a fire frame that has the columns latitude, longitude and frp with a
  finite number in every cell of them, the fire count of a county is the number of fire
  points within the county's own box, edges included, and the mean FRP is the exact mean over
  exactly those points, 0 when there are none, without an error. Where the boxes of the
  registry are pairwise apart and the ids distinct, as in the registry of the source, these
  are the points that \<open>assign_to_county\<close> resolves to the county. The count does not go
  through \<open>assign_to_county\<close>: a point within the boxes of two counties is counted for both.
\<close>

theorem C6_fire_summary:
  "(''latitude'' \<in> set cols \<and> ''longitude'' \<in> set cols \<and> ''frp'' \<in> set cols \<longrightarrow>
      fire_summary (fire_frame cols pts) b =
        Inr (length (points_within b pts), Fin (mean_frp (points_within b pts)))) \<and>
   mean_frp [] = 0 \<and>
   (pairwise_apart cs \<and> distinct (map (\<lambda>x. cid (snd x)) cs) \<and> (name, info) \<in> set cs \<longrightarrow>
      points_within (bounds info) pts = resolved_to cs (cid info) pts)"
proof (intro conjI impI)
  assume "''latitude'' \<in> set cols \<and> ''longitude'' \<in> set cols \<and> ''frp'' \<in> set cols"
  then show "fire_summary (fire_frame cols pts) b =
        Inr (length (points_within b pts), Fin (mean_frp (points_within b pts)))"
    using fire_summary_points by blast
next
  show "mean_frp [] = 0" by (simp add: mean_frp_def)
next
  assume "pairwise_apart cs \<and> distinct (map (\<lambda>x. cid (snd x)) cs) \<and> (name, info) \<in> set cs"
  then show "points_within (bounds info) pts = resolved_to cs (cid info) pts"
    using within_eq_resolved by blast
qed

text \<open>
  San Francisco with one point inside and one outside, then with no point inside; the
  overlapping registry with a point in both boxes, counted for each of the two counties.
\<close>

theorem C6_witness:
  "fire_summary (fire_frame fire_columns [sf_point, far_point]) (bounds sf_info) = Inr (1, Fin 12) \<and>
   fire_summary (fire_frame fire_columns [far_point]) (bounds sf_info) = Inr (0, Fin 0) \<and>
   resolved_to COUNTIES ''sf'' [sf_point, far_point] = [sf_point] \<and>
   fire_summary (fire_frame fire_columns [shared_point]) (bounds north_info) = Inr (1, Fin 12) \<and>
   fire_summary (fire_frame fire_columns [shared_point]) (bounds east_info) = Inr (1, Fin 12)"
proof -
  have cols: "''latitude'' \<in> set fire_columns \<and> ''longitude'' \<in> set fire_columns \<and>
              ''frp'' \<in> set fire_columns"
    by (simp add: fire_columns_def)
  have reg: "pairwise_apart COUNTIES \<and> distinct (map (\<lambda>x. cid (snd x)) COUNTIES) \<and>
             (''San Francisco'', sf_info) \<in> set COUNTIES"
    by (simp add: COUNTIES_def sf_info_def boxes_apart_def)
  have w1: "points_within (bounds sf_info) [sf_point, far_point] = [sf_point]"
    by (simp add: points_within_def sf_info_def sf_point_def far_point_def contains_def)
  have w2: "points_within (bounds sf_info) [far_point] = []"
    by (simp add: points_within_def sf_info_def far_point_def contains_def)
  have w3: "points_within (bounds north_info) [shared_point] = [shared_point]"
    by (simp add: points_within_def north_info_def shared_point_def contains_def)
  have w4: "points_within (bounds east_info) [shared_point] = [shared_point]"
    by (simp add: points_within_def east_info_def shared_point_def contains_def)
  have m1: "mean_frp [sf_point] = 12" by (simp add: mean_frp_def sf_point_def)
  have m2: "mean_frp [shared_point] = 12" by (simp add: mean_frp_def shared_point_def)
  have i: "cid sf_info = ''sf''" by (simp add: sf_info_def)
  show ?thesis
    using C6_fire_summary [of fire_columns "[sf_point, far_point]" "bounds sf_info" COUNTIES
            "''San Francisco''" sf_info]
          C6_fire_summary [of fire_columns "[far_point]" "bounds sf_info" COUNTIES
            "''San Francisco''" sf_info]
          C6_fire_summary [of fire_columns "[shared_point]" "bounds north_info" COUNTIES
            "''San Francisco''" sf_info]
          C6_fire_summary [of fire_columns "[shared_point]" "bounds east_info" COUNTIES
            "''San Francisco''" sf_info]
          cols reg
    by (simp add: w1 w2 w3 w4 m1 m2 i)
qed

text \<open>
  In the overlapping registry the shared point resolves to the first county, yet the second
  county counts it: its summary is not the one of the points resolved to it.
\<close>

theorem C6_counterexample:
  "fire_summary (fire_frame fire_columns [shared_point]) (bounds east_info) \<noteq>
     Inr (length (resolved_to overlap_registry (cid east_info) [shared_point]),
          Fin (mean_frp (resolved_to overlap_registry (cid east_info) [shared_point])))"
proof -
  have r: "resolved_to overlap_registry (cid east_info) [shared_point] = []"
    by (simp add: resolved_to_def overlap_registry_def east_info_def north_info_def
        shared_point_def Let_def)
  have cols: "''latitude'' \<in> set fire_columns" "''longitude'' \<in> set fire_columns"
    "''frp'' \<in> set fire_columns"
    by (simp_all add: fire_columns_def)
  have w4: "points_within (bounds east_info) [shared_point] = [shared_point]"
    by (simp add: points_within_def east_info_def shared_point_def contains_def)
  show ?thesis unfolding r fire_summary_points [OF cols] w4 by simp
qed

section \<open>Properties of the file selection\<close>









section \<open>Properties of the files written\<close>

lemma first_occurrences_distinct: "distinct xs \<Longrightarrow> first_occurrences xs = xs"
  by (simp add: first_occurrences_def distinct_remdups_id)

lemma lookup_own_keys:
  assumes "distinct (map fst d)" and "x \<in> set d"
  shows "(case map_of d (fst x) of Some v \<Rightarrow> v | None \<Rightarrow> PFloat NaN) = snd x"
proof -
  from assms have "map_of d (fst x) = Some (snd x)" by simp
  then show ?thesis by simp
qed

lemma DataFrame_single:
  "distinct (map fst d) \<Longrightarrow>
     DataFrame [d] = \<lparr>out_columns = map fst d, out_rows = [map snd d]\<rparr>"
  by (simp add: DataFrame_def first_occurrences_distinct lookup_own_keys Let_def)

lemma cell_single: "distinct (map fst d) \<Longrightarrow> cell (DataFrame [d]) c = map_of d c"
  by (simp add: DataFrame_single cell_def zip_map_fst_snd)

lemma flatten_entry:
  assumes "county_entry name info n avg cw s hp = Inr d"
  shows "map fst d = entry_columns \<and>
         (\<exists>flat_data. flatten d = Inr flat_data \<and> map fst flat_data = flat_columns \<and>
           map_of flat_data ''weather_temperature'' = Some (PFloat (temperature cw)) \<and>
           map_of flat_data ''weather_humidity'' = Some (PFloat (humidity cw)) \<and>
           map_of flat_data ''weather_windSpeed'' = Some (PFloat (windSpeed cw)) \<and>
           map_of flat_data ''weather_windDirection'' = Some (PStr (windDirection cw)))"
proof (cases avg)
  case NaN
  with assms show ?thesis by (simp add: county_entry_def Let_def)
next
  case (Fin frp)
  with assms show ?thesis
    by (auto simp: county_entry_def Let_def flatten_def weather_items_def flat_columns_def
        entry_columns_def)
qed

lemma distinct_flat_columns: "distinct flat_columns"
  by (simp add: flat_columns_def)

lemma entry_good:
  assumes "county_entry name info n avg cw s hp = Inr d"
  shows "good_entry cw d"
proof -
  from flatten_entry [OF assms] obtain flat_data where
    e: "map fst d = entry_columns"
    and f: "flatten d = Inr flat_data" and c: "map fst flat_data = flat_columns"
    and t: "map_of flat_data ''weather_temperature'' = Some (PFloat (temperature cw))"
    and h: "map_of flat_data ''weather_humidity'' = Some (PFloat (humidity cw))"
    and s: "map_of flat_data ''weather_windSpeed'' = Some (PFloat (windSpeed cw))"
    and w: "map_of flat_data ''weather_windDirection'' = Some (PStr (windDirection cw))"
    by blast
  have dist: "distinct (map fst flat_data)" unfolding c by (rule distinct_flat_columns)
  have cols: "out_columns (DataFrame [flat_data]) = flat_columns"
    and one: "length (out_rows (DataFrame [flat_data])) = 1"
    by (simp_all add: DataFrame_single [OF dist] c)
  have cells:
    "cell (DataFrame [flat_data]) ''weather_temperature'' = Some (PFloat (temperature cw))"
    "cell (DataFrame [flat_data]) ''weather_humidity'' = Some (PFloat (humidity cw))"
    "cell (DataFrame [flat_data]) ''weather_windSpeed'' = Some (PFloat (windSpeed cw))"
    "cell (DataFrame [flat_data]) ''weather_windDirection'' = Some (PStr (windDirection cw))"
    using t h s w by (simp_all only: cell_single [OF dist])
  show ?thesis
    unfolding good_entry_def f county_record_def
    by (simp add: cols one e cells)
qed

lemma process_county_good:
  "process_county fire_df weather_df vegetation_df name info = Inr d \<Longrightarrow>
     good_entry (county_weather_of weather_df) d"
  unfolding process_county_def
  by (auto simp: Let_def split: sum.splits prod.splits intro: entry_good)

lemma set_dict_set: "set (dict_set d k v) \<subseteq> insert (k, v) (set d)"
  by (induction d) (auto split: if_splits)

lemma map_fst_dict_set:
  "map fst (dict_set d k v) = (if k \<in> set (map fst d) then map fst d else map fst d @ [k])"
  by (induction d) force+

lemma keys_dict_set: "fst ` set (dict_set d k v) = insert k (fst ` set d)"
proof -
  have "set (map fst (dict_set d k v)) = insert k (set (map fst d))"
    unfolding map_fst_dict_set by auto
  then show ?thesis by simp
qed

lemma process_counties_good:
  "process_counties fire_df weather_df vegetation_df cs acc = Inr county_data \<Longrightarrow>
   (\<forall>x \<in> set acc. good_entry (county_weather_of weather_df) (snd x)) \<Longrightarrow>
   (\<forall>x \<in> set county_data. good_entry (county_weather_of weather_df) (snd x)) \<and>
   fst ` set acc \<union> (\<lambda>x. cid (snd x)) ` set cs \<subseteq> fst ` set county_data"
proof (induction cs arbitrary: acc)
  case Nil
  then show ?case by simp
next
  case (Cons x cs)
  obtain name info where x: "x = (name, info)" by (cases x)
  from Cons.prems(1) obtain d where
    d: "process_county fire_df weather_df vegetation_df name info = Inr d"
    and rest: "process_counties fire_df weather_df vegetation_df cs (dict_set acc (cid info) d) =
                 Inr county_data"
    unfolding x by (auto split: sum.splits)
  have g: "\<forall>y \<in> set (dict_set acc (cid info) d). good_entry (county_weather_of weather_df) (snd y)"
    using set_dict_set [of acc "cid info" d] Cons.prems(2) process_county_good [OF d] by auto
  from Cons.IH [OF rest g] keys_dict_set [of acc "cid info" d] show ?case
    unfolding x by auto
qed

lemma good_file_to_csv:
  "good_file cw (to_csv df path w) p = (if p = path then county_record cw df else good_file cw w p)"
  by (simp add: good_file_def to_csv_def)

lemma save_counties_good:
  "(\<forall>x \<in> set county_data. good_entry cw (snd x)) \<Longrightarrow>
   fst (save_counties county_data w) \<and>
   (\<forall>i \<in> fst ` set county_data. good_file cw (snd (save_counties county_data w)) (county_path i)) \<and>
   (\<forall>p. good_file cw w p \<longrightarrow> good_file cw (snd (save_counties county_data w)) p)"
proof (induction county_data arbitrary: w)
  case Nil
  show ?case by simp
next
  case (Cons x county_data)
  obtain i d where x: "x = (i, d)" by (cases x)
  from Cons.prems have "good_entry cw d" unfolding x by simp
  then obtain flat_data where f: "flatten d = Inr flat_data"
    and c: "county_record cw (DataFrame [flat_data])"
    by (auto simp: good_entry_def split: sum.splits)
  let ?w = "to_csv (DataFrame [flat_data]) (county_path i) w"
  have step: "save_counties (x # county_data) w = save_counties county_data ?w"
    unfolding x by (simp add: f county_path_def)
  from Cons.prems have rest: "\<forall>y \<in> set county_data. good_entry cw (snd y)" by simp
  note ih = Cons.IH [OF rest, of ?w]
  have here: "good_file cw ?w (county_path i)" by (simp add: good_file_to_csv c)
  have keep: "good_file cw w p \<Longrightarrow> good_file cw ?w p" for p
    by (simp add: good_file_to_csv c)
  show ?case unfolding step using ih here keep by (auto simp: x)
qed

lemma combined_path_eq: "combined_path = ''data/processed/all_counties.csv''"
  by (simp add: combined_path_def os_path_join_def endswith_sep_def)

lemma county_path_not_combined: "county_path i \<noteq> combined_path"
proof (cases "startswith_sep (i @ ''_processed.csv'')")
  case True
  then have "county_path i = i @ ''_processed.csv''"
    by (simp add: county_path_def os_path_join_def)
  moreover have "\<not> startswith_sep combined_path" by (simp add: combined_path_eq)
  ultimately show ?thesis using True by auto
next
  case False
  then have p: "county_path i = ''data/processed/'' @ i @ ''_processed.csv''"
    by (simp add: county_path_def os_path_join_def endswith_sep_def)
  show ?thesis
  proof
    assume "county_path i = combined_path"
    then have "i @ ''_processed.csv'' = ''all_counties.csv''"
      unfolding p combined_path_eq by simp
    then have "rev (i @ ''_processed.csv'') ! 4 = rev ''all_counties.csv'' ! 4" by simp
    then show False by simp
  qed
qed

lemma save_processed_data_good:
  assumes "\<forall>x \<in> set county_data. good_entry cw (snd x)"
  shows "written (snd (save_processed_data county_data w)) combined_path =
           Some (DataFrame (map snd county_data)) \<and>
         (\<forall>i \<in> fst ` set county_data.
            good_file cw (snd (save_processed_data county_data w)) (county_path i))"
proof -
  obtain ok w' where s: "save_counties county_data w = (ok, w')"
    by (cases "save_counties county_data w")
  from save_counties_good [OF assms, of w] s
  have ok: "ok" and g: "\<forall>i \<in> fst ` set county_data. good_file cw w' (county_path i)" by auto
  have "save_processed_data county_data w =
          (True, to_csv (DataFrame (map snd county_data)) combined_path w')"
    using ok by (simp add: save_processed_data_def s combined_path_def)
  then have r: "snd (save_processed_data county_data w) =
                  to_csv (DataFrame (map snd county_data)) combined_path w'"
    by simp
  have a: "written (snd (save_processed_data county_data w)) combined_path =
             Some (DataFrame (map snd county_data))"
    unfolding r by (simp add: to_csv_def)
  have b: "\<forall>i \<in> fst ` set county_data.
             good_file cw (snd (save_processed_data county_data w)) (county_path i)"
    unfolding r using g county_path_not_combined by (simp add: good_file_to_csv)
  from a b show ?thesis by blast
qed

lemma run_True:
  assumes "process_data_by_county cs w = Inr (True, w')"
  shows "\<exists>fire_df weather_df vegetation_df county_data.
           load_weather_data w = Some weather_df \<and>
           process_counties fire_df weather_df vegetation_df cs [] = Inr county_data \<and>
           w' = snd (save_processed_data county_data w)"
  using assms unfolding process_data_by_county_def
  by (auto split: option.splits sum.splits)

lemma run_files:
  assumes "process_data_by_county cs w = Inr (True, w')"
  shows "\<exists>weather_df county_data.
           load_weather_data w = Some weather_df \<and>
           (\<forall>x \<in> set county_data. good_entry (county_weather_of weather_df) (snd x)) \<and>
           (\<lambda>x. cid (snd x)) ` set cs \<subseteq> fst ` set county_data \<and>
           written w' combined_path = Some (DataFrame (map snd county_data)) \<and>
           (\<forall>x \<in> set cs. good_file (county_weather_of weather_df) w' (county_path (cid (snd x))))"
proof -
  from run_True [OF assms] obtain fire_df weather_df vegetation_df county_data where
    l: "load_weather_data w = Some weather_df"
    and p: "process_counties fire_df weather_df vegetation_df cs [] = Inr county_data"
    and w': "w' = snd (save_processed_data county_data w)" by blast
  from process_counties_good [OF p]
  have g: "\<forall>x \<in> set county_data. good_entry (county_weather_of weather_df) (snd x)"
    and i: "(\<lambda>x. cid (snd x)) ` set cs \<subseteq> fst ` set county_data" by simp_all
  from save_processed_data_good [OF g, of w] i
  have "written w' combined_path = Some (DataFrame (map snd county_data)) \<and>
        (\<forall>x \<in> set cs. good_file (county_weather_of weather_df) w' (county_path (cid (snd x))))"
    unfolding w' by blast
  with l g i show ?thesis by blast
qed

lemma remdups_absorb: "set xs \<subseteq> set ys \<Longrightarrow> remdups (xs @ ys) = remdups ys"
  by (induction xs) auto

lemma first_occurrences_absorb:
  "set ys \<subseteq> set xs \<Longrightarrow> first_occurrences (xs @ ys) = first_occurrences xs"
  by (simp add: first_occurrences_def remdups_absorb)

lemma columns_of_entries:
  assumes "ds \<noteq> []" and "\<forall>d \<in> set ds. map fst d = entry_columns"
  shows "out_columns (DataFrame ds) = entry_columns \<and>
         length (out_rows (DataFrame ds)) = length ds"
proof -
  obtain d rest where ds: "ds = d # rest" using assms(1) by (cases ds) auto
  have d: "map fst d = entry_columns" using assms(2) ds by simp
  have "set (concat (map (map fst) rest)) \<subseteq> set entry_columns"
    using assms(2) ds by auto
  then have "first_occurrences (entry_columns @ concat (map (map fst) rest)) =
               first_occurrences entry_columns"
    by (rule first_occurrences_absorb)
  moreover have "distinct entry_columns" by (simp add: entry_columns_def)
  ultimately have "first_occurrences (concat (map (map fst) ds)) = entry_columns"
    unfolding ds by (simp add: d first_occurrences_distinct)
  then show ?thesis by (simp add: DataFrame_def Let_def)
qed

lemma run_columns:
  assumes "process_data_by_county cs w = Inr (True, w')" and "cs \<noteq> []"
  shows "map_option out_columns (written w' combined_path) = Some entry_columns \<and>
         (\<forall>x \<in> set cs.
            map_option out_columns (written w' (county_path (cid (snd x)))) = Some flat_columns)"
proof -
  from run_files [OF assms(1)] obtain weather_df county_data where
    g: "\<forall>x \<in> set county_data. good_entry (county_weather_of weather_df) (snd x)"
    and i: "(\<lambda>x. cid (snd x)) ` set cs \<subseteq> fst ` set county_data"
    and c: "written w' combined_path = Some (DataFrame (map snd county_data))"
    and f: "\<forall>x \<in> set cs. good_file (county_weather_of weather_df) w' (county_path (cid (snd x)))"
    by blast
  from i assms(2) have ne: "map snd county_data \<noteq> []" by (cases cs) auto
  from g have "\<forall>d \<in> set (map snd county_data). map fst d = entry_columns"
    by (auto simp: good_entry_def)
  from columns_of_entries [OF ne this] c
  have a: "map_option out_columns (written w' combined_path) = Some entry_columns" by simp
  from f have "\<forall>x \<in> set cs.
      map_option out_columns (written w' (county_path (cid (snd x)))) = Some flat_columns"
    by (auto simp: good_file_def county_record_def split: option.splits)
  with a show ?thesis by blast
qed

lemma run_weather_cells:
  assumes "process_data_by_county cs w = Inr (True, w')" and "x \<in> set cs"
    and "load_weather_data w = Some weather_df"
  shows "persisted w' (county_path (cid (snd x))) ''weather_temperature'' =
           Some (PFloat (mean_or weather_df ''TAVG'' 70)) \<and>
         persisted w' (county_path (cid (snd x))) ''weather_humidity'' =
           Some (PFloat (mean_or weather_df ''RHAVG'' 50)) \<and>
         persisted w' (county_path (cid (snd x))) ''weather_windSpeed'' =
           Some (PFloat (mean_or weather_df ''AWND'' 5)) \<and>
         persisted w' (county_path (cid (snd x))) ''weather_windDirection'' = Some (PStr ''NW'')"
proof -
  from run_files [OF assms(1)] assms(2,3)
  have "good_file (county_weather_of weather_df) w' (county_path (cid (snd x)))" by auto
  then show ?thesis
    by (auto simp: good_file_def county_record_def persisted_def county_weather_of_def
        split: option.splits)
qed

lemma process_county_ok:
  assumes "''latitude'' \<in> set cols" "''longitude'' \<in> set cols" "''frp'' \<in> set cols"
  shows "\<exists>d. process_county (fire_frame cols pts) weather_df vegetation_df name info = Inr d"
  unfolding process_county_def fire_summary_points [OF assms]
  by (simp add: county_entry_def Let_def)

lemma process_counties_ok:
  assumes "''latitude'' \<in> set cols" "''longitude'' \<in> set cols" "''frp'' \<in> set cols"
  shows "\<exists>county_data.
           process_counties (fire_frame cols pts) weather_df vegetation_df cs acc = Inr county_data"
proof (induction cs arbitrary: acc)
  case Nil
  show ?case by simp
next
  case (Cons x cs)
  obtain name info where x: "x = (name, info)" by (cases x)
  from process_county_ok [OF assms] obtain d where
    "process_county (fire_frame cols pts) weather_df vegetation_df name info = Inr d" by blast
  with Cons.IH [of "dict_set acc (cid info) d"] show ?case unfolding x by simp
qed

lemma run_succeeds:
  assumes "load_fire_data w = Some (fire_frame cols pts)"
    and "''latitude'' \<in> set cols" "''longitude'' \<in> set cols" "''frp'' \<in> set cols"
    and "load_weather_data w = Some weather_df"
    and "load_vegetation_data w = Some vegetation_df"
  shows "\<exists>w'. process_data_by_county cs w = Inr (True, w')"
proof -
  from process_counties_ok [OF assms(2-4)] obtain county_data where
    "process_counties (fire_frame cols pts) weather_df vegetation_df cs [] = Inr county_data"
    by blast
  then show ?thesis unfolding process_data_by_county_def by (simp add: assms(1,5,6))
qed

lemma returned_True: "returned r = Some True \<longleftrightarrow> (\<exists>w'. r = Inr (True, w'))"
  by (auto simp: returned_def split: sum.splits)

lemma sample_fire:
  "load_fire_data sample_world = Some (fire_frame fire_columns [sf_point, far_point])"
  by (simp add: load_fire_data_def get_latest_file_def sample_world_def sample_glob_def
      os_path_join_def endswith_sep_def)

lemma sample_weather: "load_weather_data sample_world = Some (pd_concat [humidity_frame])"
  by (simp add: load_weather_data_def sample_world_def sample_glob_def)

lemma sample_vegetation: "load_vegetation_data sample_world = Some ndvi_frame"
  by (simp add: load_vegetation_data_def get_latest_file_def sample_world_def sample_glob_def
      os_path_join_def endswith_sep_def)

lemma windy_fire:
  "load_fire_data windy_world = Some (fire_frame fire_columns [sf_point, far_point])"
  by (simp add: load_fire_data_def get_latest_file_def windy_world_def sample_world_def
      sample_glob_def os_path_join_def endswith_sep_def)

lemma windy_weather: "load_weather_data windy_world = Some (pd_concat [full_weather_frame])"
  by (simp add: load_weather_data_def windy_world_def sample_world_def sample_glob_def)

lemma windy_vegetation: "load_vegetation_data windy_world = Some ndvi_frame"
  by (simp add: load_vegetation_data_def get_latest_file_def windy_world_def sample_world_def
      sample_glob_def os_path_join_def endswith_sep_def)

lemma fire_columns_present:
  "''latitude'' \<in> set fire_columns" "''longitude'' \<in> set fire_columns"
  "''frp'' \<in> set fire_columns"
  by (simp_all add: fire_columns_def)

lemma sample_run: "\<exists>w'. process_data_by_county cs sample_world = Inr (True, w')"
  using run_succeeds [OF sample_fire fire_columns_present sample_weather sample_vegetation] .

lemma windy_run: "\<exists>w'. process_data_by_county cs windy_world = Inr (True, w')"
  using run_succeeds [OF windy_fire fire_columns_present windy_weather windy_vegetation] .

lemma persisted_after_run:
  "r = Inr (ok, w') \<Longrightarrow> persisted_after r path c = persisted w' path c"
  by (simp add: persisted_after_def)

lemma columns_after_run:
  "r = Inr (ok, w') \<Longrightarrow> columns_after r path = map_option out_columns (written w' path)"
  by (simp add: columns_after_def)



lemma sample_weather_columns:
  "columns (pd_concat [humidity_frame]) = [''DATE'', ''RHAVG'']"
  by (simp add: pd_concat_def humidity_frame_def first_occurrences_def)

lemma windy_weather_columns:
  "columns (pd_concat [full_weather_frame]) = [''DATE'', ''TAVG'', ''RHAVG'', ''AWND'', ''WDF2'']"
  by (simp add: pd_concat_def full_weather_frame_def first_occurrences_def)

lemma sf_in_COUNTIES: "(''San Francisco'', sf_info) \<in> set COUNTIES"
  by (simp add: COUNTIES_def sf_info_def)

lemma la_in_COUNTIES: "(''Los Angeles'', la_info) \<in> set COUNTIES"
  by (simp add: COUNTIES_def la_info_def)












text \<open>
  C9, on the sample disk. The run succeeds; the file of San Francisco has the flattened
  columns, with the four weather columns, while the combined file has the columns of the
  dicts as they are: a column \<^verbatim>\<open>weatherConditions\<close>, holding the nested dict, and no weather
  column. The combined frame is built from \<^verbatim>\<open>county_data\<close>, which the flattening of the
  copies did not touch.
\<close>

theorem C9_combined_not_flattened:
  "returned (process_data_by_county COUNTIES sample_world) = Some True \<and>
   columns_after (process_data_by_county COUNTIES sample_world) (county_path ''sf'') =
     Some flat_columns \<and>
   columns_after (process_data_by_county COUNTIES sample_world) combined_path =
     Some entry_columns \<and>
   ''weatherConditions'' \<in> set entry_columns \<and>
   ''weather_windDirection'' \<notin> set entry_columns \<and>
   ''weatherConditions'' \<notin> set flat_columns \<and>
   ''weather_windDirection'' \<in> set flat_columns"
proof -
  from sample_run [of COUNTIES] obtain w' where
    r: "process_data_by_county COUNTIES sample_world = Inr (True, w')" by blast
  have ne: "COUNTIES \<noteq> []" by (simp add: COUNTIES_def)
  have i: "cid sf_info = ''sf''" by (simp add: sf_info_def)
  from run_columns [OF r ne] sf_in_COUNTIES i
  have a: "map_option out_columns (written w' combined_path) = Some entry_columns"
    and b: "map_option out_columns (written w' (county_path ''sf'')) = Some flat_columns"
    by force+
  have c: "returned (process_data_by_county COUNTIES sample_world) = Some True"
    unfolding r by (simp add: returned_def)
  from a b c show ?thesis
    unfolding columns_after_run [OF r] by (simp add: entry_columns_def flat_columns_def)
qed

lemma run_wind:
  assumes "returned (process_data_by_county cs w) = Some True" and "x \<in> set cs"
  shows "persisted_after (process_data_by_county cs w) (county_path (cid (snd x)))
           ''weather_windDirection'' = Some (PStr ''NW'')"
proof -
  from assms(1) obtain w' where r: "process_data_by_county cs w = Inr (True, w')"
    unfolding returned_True by blast
  from run_True [OF r] obtain weather_df where "load_weather_data w = Some weather_df"
    by blast
  from run_weather_cells [OF r assms(2) this] show ?thesis
    by (simp add: persisted_after_run [OF r])
qed

text \<open>
  C10. In the record persisted for a county, the wind direction is the constant NW whatever
  the sources hold: of two runs that return \<^verbatim>\<open>True\<close>, on any two disks, both leave NW in the
  column \<^verbatim>\<open>weather_windDirection\<close> of every county's file.
\<close>

theorem C10_wind_direction_constant:
  "returned (process_data_by_county cs w1) = Some True \<and>
   returned (process_data_by_county cs w2) = Some True \<and> x \<in> set cs \<longrightarrow>
     persisted_after (process_data_by_county cs w1) (county_path (cid (snd x)))
       ''weather_windDirection'' = Some (PStr ''NW'') \<and>
     persisted_after (process_data_by_county cs w2) (county_path (cid (snd x)))
       ''weather_windDirection'' =
     persisted_after (process_data_by_county cs w1) (county_path (cid (snd x)))
       ''weather_windDirection''"
  using run_wind by simp

text \<open>
  The sample disk and the disk whose weather file has a wind direction column (and other
  temperatures, humidities and wind speeds): the same NW for Los Angeles.
\<close>

theorem C10_witness:
  "map_option columns (load_weather_data sample_world) \<noteq>
     map_option columns (load_weather_data windy_world) \<and>
   persisted_after (process_data_by_county COUNTIES sample_world) (county_path ''la'')
     ''weather_windDirection'' = Some (PStr ''NW'') \<and>
   persisted_after (process_data_by_county COUNTIES windy_world) (county_path ''la'')
     ''weather_windDirection'' = Some (PStr ''NW'')"
proof -
  have i: "cid la_info = ''la''" by (simp add: la_info_def)
  have s: "returned (process_data_by_county COUNTIES sample_world) = Some True"
    unfolding returned_True by (rule sample_run)
  have w: "returned (process_data_by_county COUNTIES windy_world) = Some True"
    unfolding returned_True by (rule windy_run)
  have d: "map_option columns (load_weather_data sample_world) \<noteq>
     map_option columns (load_weather_data windy_world)"
    by (simp add: sample_weather windy_weather sample_weather_columns windy_weather_columns)
  from C10_wind_direction_constant [of COUNTIES sample_world windy_world
         "(''Los Angeles'', la_info)"] s w la_in_COUNTIES i d
  show ?thesis by simp
qed

end
